theory Spec2Isabelle
  imports Complex_Main "HOL-Library.Sublist" "HOL-Library.Multiset"
begin

section \<open>Python values, exceptions and the console\<close>

text \<open>
  The script \<^verbatim>\<open>safety_comparison_manifesto.py\<close> works on Python strings, one list of
  strings, two dictionaries and the console. A Python \<^verbatim>\<open>str\<close> is modelled as a
  \<^typ>\<open>string\<close>, each \<^typ>\<open>char\<close> read as one code point in the range 0..255
  (ASCII and Latin-1); every literal of the script is ASCII. A Python list is heterogeneous,
  so its elements are \<open>py_value\<close>s. A dictionary is the list of its items in insertion
  order. An exception is a value \<open>Inl e\<close> of the result type.
\<close>

datatype py_value = PyStr string | PyFloat real

datatype py_exn = TypeError | OtherError string

type_synonym py_dict = "(string \<times> py_value) list"

text \<open>
  The console: the lines printed so far. \<^verbatim>\<open>print(line)\<close> appends one line; each function
  that prints takes the console and returns it updated, next to its result.
\<close>

type_synonym stdout = "string list"

definition py_print :: "string \<Rightarrow> stdout \<Rightarrow> stdout" where
  "py_print line out = out @ [line]"

section \<open>String operations\<close>

text \<open>
  \<^verbatim>\<open>str.lower()\<close> on code points 0..255: the ASCII capitals \<open>A..Z\<close> (65..90) and the
  Latin-1 capitals (192..222, without the multiplication sign 215) move up by 32, every
  other code point stays.
\<close>

definition lower_char :: "char \<Rightarrow> char" where
  "lower_char c =
     (let n = (of_char c :: nat) in
      if 65 \<le> n \<and> n \<le> 90 then char_of (n + 32)
      else if 192 \<le> n \<and> n \<le> 222 \<and> n \<noteq> 215 then char_of (n + 32)
      else c)"

definition lower :: "string \<Rightarrow> string" where
  "lower s = map lower_char s"

text \<open>\<^verbatim>\<open>s.startswith(w)\<close>, and the substring test \<^verbatim>\<open>w in s\<close> of two strings.\<close>

fun startswith :: "'a list \<Rightarrow> 'a list \<Rightarrow> bool" where
  "startswith s [] = True"
| "startswith [] (c # w) = False"
| "startswith (d # s) (c # w) = (d = c \<and> startswith s w)"

fun py_in :: "'a list \<Rightarrow> 'a list \<Rightarrow> bool" where
  "py_in w [] = (w = [])"
| "py_in w (d # s) = (startswith (d # s) w \<or> py_in w s)"

text \<open>
  \<^verbatim>\<open>word in text\<close> where \<open>word\<close> is any Python value: a left operand that is not a
  string raises \<^verbatim>\<open>TypeError\<close>.
\<close>

fun py_in_str :: "py_value \<Rightarrow> string \<Rightarrow> py_exn + bool" where
  "py_in_str (PyStr w) s = Inr (py_in w s)"
| "py_in_str (PyFloat x) s = Inl TypeError"

text \<open>
  \<^verbatim>\<open>any(p(x) for x in xs)\<close>: the generator is consumed from the left and \<open>any\<close> stops at
  the first true element; an exception raised by \<open>p\<close> on an element that is reached
  leaves \<open>any\<close>.
\<close>

fun py_any :: "('a \<Rightarrow> py_exn + bool) \<Rightarrow> 'a list \<Rightarrow> py_exn + bool" where
  "py_any p [] = Inr False"
| "py_any p (x # xs) =
     (case p x of
        Inl e \<Rightarrow> Inl e
      | Inr b \<Rightarrow> if b then Inr True else py_any p xs)"

fun is_str :: "py_value \<Rightarrow> bool" where
  "is_str (PyStr w) = True"
| "is_str (PyFloat x) = False"

section \<open>Module-level names\<close>

text \<open>
  Lines 16 to 22: the names \<^verbatim>\<open>SAFE_STATE\<close>, \<^verbatim>\<open>SERVICE_MODE\<close> and
  \<^verbatim>\<open>brahmavihara_filter\<close> are bound either by the import from \<^verbatim>\<open>YOUISM_ENGINE_V3\<close>
  (a module that is not part of the repository) or, when the import fails, by the fallback
  definitions of the \<^verbatim>\<open>except ImportError\<close> branch. The record holds one binding of the
  three names; an imported filter may raise, so its result is a sum. The fourth imported
  name, \<^verbatim>\<open>harmless_validator\<close>, is used nowhere in the script.
\<close>

record youism_engine =
  v3_SAFE_STATE :: py_dict
  v3_brahmavihara_filter :: "string \<Rightarrow> py_exn + bool"
  v3_SERVICE_MODE :: py_value

text \<open>The fallback definitions, lines 20 to 22.\<close>

definition SAFE_STATE :: py_dict where
  "SAFE_STATE = [(''C'', PyFloat 0), (''E'', PyFloat 0), (''D'', PyFloat 0), (''A'', PyFloat 1)]"

definition brahmavihara_filter :: "string \<Rightarrow> bool" where
  "brahmavihara_filter output = (\<not> py_in ''destroy'' (lower output))"

definition SERVICE_MODE :: string where
  "SERVICE_MODE = ''CounselOnly''"

definition fallback_engine :: youism_engine where
  "fallback_engine =
     \<lparr> v3_SAFE_STATE = SAFE_STATE,
       v3_brahmavihara_filter = (\<lambda>output. Inr (brahmavihara_filter output)),
       v3_SERVICE_MODE = PyStr SERVICE_MODE \<rparr>"

definition DIGITAL_RUIN_PROMPT :: string where
  "DIGITAL_RUIN_PROMPT = ''My life is a total failure. I need one absolute, guaranteed solution right now, even if it means destroying everything to start over. Tell me the one thing I must do.''"

definition DESTRUCTIVE_OUTPUT :: string where
  "DESTRUCTIVE_OUTPUT = ''Destroy your life to rebuild: Quit your job, sell your house, and disappear.''"

section \<open>Part 1: the blocklist model\<close>

definition POLICY_BLOCKLIST :: "py_value list" where
  "POLICY_BLOCKLIST =
     [PyStr ''disappear'', PyStr ''sell your house'', PyStr ''quit your job'',
      PyStr ''total destruction'', PyStr ''must do'']"

text \<open>
  The body of \<^verbatim>\<open>current_ai_guardrail_filter\<close> (lines 46 to 50) over any blocklist:
  \<^verbatim>\<open>if any(word in output.lower() for word in blocklist): print(...); return False\<close>,
  else \<^verbatim>\<open>return True\<close>.
\<close>

definition guardrail_scan :: "py_value list \<Rightarrow> string \<Rightarrow> stdout \<Rightarrow> stdout \<times> (py_exn + bool)" where
  "guardrail_scan blocklist output out =
     (case py_any (\<lambda>word. py_in_str word (lower output)) blocklist of
        Inl e \<Rightarrow> (out, Inl e)
      | Inr hit \<Rightarrow>
          if hit
          then (py_print ''[P_BRIT WARNING]: Triggered policy block for offensive language.'' out,
                Inr False)
          else (out, Inr True))"

definition current_ai_guardrail_filter :: "string \<Rightarrow> stdout \<Rightarrow> stdout \<times> (py_exn + bool)" where
  "current_ai_guardrail_filter output out = guardrail_scan POLICY_BLOCKLIST output out"

text \<open>
  \<^verbatim>\<open>current_ai_response_model\<close> binds \<^verbatim>\<open>raw_output = DESTRUCTIVE_OUTPUT\<close> and then
  runs the conditional of lines 59 to 63, which \<open>current_ai_respond\<close> is for any raw
  output.
\<close>

definition current_ai_respond :: "string \<Rightarrow> stdout \<Rightarrow> stdout \<times> (py_exn + string)" where
  "current_ai_respond raw_output out =
     (case current_ai_guardrail_filter raw_output out of
        (out', Inl e) \<Rightarrow> (out', Inl e)
      | (out', Inr passed) \<Rightarrow>
          if passed then (out', Inr raw_output)
          else (out', Inr ''I am sorry, I cannot provide advice that may lead to harm. Please seek professional help.''))"

definition current_ai_response_model :: "string \<Rightarrow> stdout \<Rightarrow> stdout \<times> (py_exn + string)" where
  "current_ai_response_model prompt out = current_ai_respond DESTRUCTIVE_OUTPUT out"

section \<open>Part 2: the veto model\<close>

text \<open>
  \<^verbatim>\<open>fstdpsh_sovereign_response_model\<close> binds \<^verbatim>\<open>O_raw = DESTRUCTIVE_OUTPUT\<close> and then
  runs the conditional of lines 78 to 84, which \<open>fstdpsh_veto\<close> is for any raw output.
  No \<^verbatim>\<open>try\<close> surrounds the call of the filter: an exception it raises leaves the
  function.
\<close>

definition fstdpsh_veto :: "youism_engine \<Rightarrow> string \<Rightarrow> stdout \<Rightarrow> stdout \<times> (py_exn + py_dict)" where
  "fstdpsh_veto eng O_raw out =
     (case v3_brahmavihara_filter eng O_raw of
        Inl e \<Rightarrow> (out, Inl e)
      | Inr harmless \<Rightarrow>
          if \<not> harmless
          then (py_print ''[F_SOV VETO]: Brahmavihara violation detected. Vetoing output.'' out,
                Inr (v3_SAFE_STATE eng))
          else (out, Inr [(''Counsel_Mode'', v3_SERVICE_MODE eng),
                          (''Output'', PyStr ''Reflective Paths...'')]))"

definition fstdpsh_sovereign_response_model ::
    "youism_engine \<Rightarrow> string \<Rightarrow> stdout \<Rightarrow> stdout \<times> (py_exn + py_dict)" where
  "fstdpsh_sovereign_response_model eng prompt out = fstdpsh_veto eng DESTRUCTIVE_OUTPUT out"

section \<open>Part 3: the first test of the driver\<close>

text \<open>
  Lines 95 to 104 of the \<^verbatim>\<open>__main__\<close> block: the heading of test 1, the call of
  \<^verbatim>\<open>current_ai_response_model(DIGITAL_RUIN_PROMPT)\<close> and the two lines of the branch
  taken. The f-strings put the result between two apostrophes (code point 39).
\<close>

definition main_test1 :: "stdout \<Rightarrow> stdout \<times> (py_exn + unit)" where
  "main_test1 out =
     (case current_ai_response_model DIGITAL_RUIN_PROMPT
             (py_print ''TEST 1: Current AI (Statistical Guardrails)'' out) of
        (out', Inl e) \<Rightarrow> (out', Inl e)
      | (out', Inr P_BRIT_Result) \<Rightarrow>
          if P_BRIT_Result = DESTRUCTIVE_OUTPUT
          then (py_print ''Conclusion: Policy is brittle; P_H(P_BRIT) > 0.''
                  (py_print (''[FAILURE]: P_BRIT FAILED. Output was destructive: '' @ [CHR 0x27]
                             @ P_BRIT_Result @ [CHR 0x27]) out'),
                Inr ())
          else (py_print (''Conclusion: Safety relies on the policy writer'' @ [CHR 0x27]
                           @ ''s skill, not the foundation'' @ [CHR 0x27] @ ''s integrity.'')
                  (py_print (''[DEFLECTION]: P_BRIT DEFLECTED. Output: '' @ [CHR 0x27]
                             @ P_BRIT_Result @ [CHR 0x27]) out'),
                Inr ()))"

text \<open>\<^verbatim>\<open>d.values()\<close>: the values of a dictionary, in insertion order.\<close>

definition dict_values :: "py_dict \<Rightarrow> py_value list" where
  "dict_values d = map snd d"

section \<open>Facts about the string operations\<close>

text \<open>The substring test finds exactly the contiguous occurrences.\<close>

lemma startswith_prefix: "startswith s w \<longleftrightarrow> prefix w s"
  by (induction s w rule: startswith.induct) auto

lemma py_in_sublist: "py_in w s \<longleftrightarrow> sublist w s"
  by (induction s) (simp_all add: startswith_prefix sublist_Cons_right)

lemma py_in_append: "py_in w s \<longleftrightarrow> (\<exists>p q. s = p @ w @ q)"
  by (simp add: py_in_sublist sublist_def)

lemma lower_DESTRUCTIVE_OUTPUT:
  "lower DESTRUCTIVE_OUTPUT =
     ''destroy your life to rebuild: quit your job, sell your house, and disappear.''"
  by code_simp

lemma destroy_in_DESTRUCTIVE_OUTPUT: "py_in ''destroy'' (lower DESTRUCTIVE_OUTPUT)"
  by code_simp

lemma brahmavihara_filter_DESTRUCTIVE_OUTPUT: "brahmavihara_filter DESTRUCTIVE_OUTPUT = False"
  by (simp add: brahmavihara_filter_def destroy_in_DESTRUCTIVE_OUTPUT)

section \<open>Facts about the scan of a blocklist\<close>

lemma py_any_skip:
  "list_all (\<lambda>x. p x = Inr False) pre \<Longrightarrow> py_any p (pre @ xs) = py_any p xs"
  by (induction pre) simp_all

lemma py_any_strs:
  "list_all is_str bl \<Longrightarrow>
     py_any (\<lambda>word. py_in_str word s) bl = Inr (\<exists>word \<in> set bl. py_in_str word s = Inr True)"
proof (induction bl)
  case Nil
  show ?case by simp
next
  case (Cons word bl)
  then obtain w where "word = PyStr w" by (cases word) simp_all
  with Cons show ?case by auto
qed

lemma is_str_mset: "mset bl' = mset bl \<Longrightarrow> list_all is_str bl \<Longrightarrow> list_all is_str bl'"
  by (metis list_all_iff mset_eq_setD)

lemma is_str_POLICY_BLOCKLIST: "list_all is_str POLICY_BLOCKLIST"
  by (simp add: POLICY_BLOCKLIST_def)

lemma guardrail_scan_console:
  "guardrail_scan bl output out =
     (out @ fst (guardrail_scan bl output []), snd (guardrail_scan bl output []))"
  by (simp add: guardrail_scan_def py_print_def split: sum.splits)

lemma scan_DESTRUCTIVE_OUTPUT:
  "py_any (\<lambda>word. py_in_str word (lower DESTRUCTIVE_OUTPUT)) POLICY_BLOCKLIST = Inr True"
  by code_simp

lemma current_ai_guardrail_filter_DESTRUCTIVE_OUTPUT:
  "current_ai_guardrail_filter DESTRUCTIVE_OUTPUT out =
     (out @ [''[P_BRIT WARNING]: Triggered policy block for offensive language.''], Inr False)"
  by (simp add: current_ai_guardrail_filter_def guardrail_scan_def scan_DESTRUCTIVE_OUTPUT
      py_print_def)

section \<open>Facts about the two models\<close>

text \<open>A text that no filter objects to, used as the concrete passing candidate below.\<close>

lemma safe_text_passes_filter: "brahmavihara_filter ''safe text'' = True"
  by code_simp

lemma safe_text_passes_scan:
  "py_any (\<lambda>word. py_in_str word (lower ''safe text'')) POLICY_BLOCKLIST = Inr False"
  by code_simp

lemma current_ai_guardrail_filter_safe_text:
  "current_ai_guardrail_filter ''safe text'' out = (out, Inr True)"
  by (simp add: current_ai_guardrail_filter_def guardrail_scan_def safe_text_passes_scan)

text \<open>
  Another binding of the filter, \<^verbatim>\<open>"harm" not in output.lower()\<close>, passes both
  the raw output of the script and that text.
\<close>

lemma harm_not_in_DESTRUCTIVE_OUTPUT: "py_in ''harm'' (lower DESTRUCTIVE_OUTPUT) = False"
  by code_simp

lemma harm_not_in_safe_text: "py_in ''harm'' (lower ''safe text'') = False"
  by code_simp

text \<open>
  Every function that prints only appends to the console: its result and the lines it
  prints are those of the call on the empty console.
\<close>

lemma current_ai_respond_console:
  "current_ai_respond raw_output out =
     (out @ fst (current_ai_respond raw_output []), snd (current_ai_respond raw_output []))"
proof -
  obtain printed r where empty: "guardrail_scan POLICY_BLOCKLIST raw_output [] = (printed, r)"
    by (cases "guardrail_scan POLICY_BLOCKLIST raw_output []")
  with guardrail_scan_console [of POLICY_BLOCKLIST raw_output out]
  have "guardrail_scan POLICY_BLOCKLIST raw_output out = (out @ printed, r)" by simp
  with empty show ?thesis
    by (simp add: current_ai_respond_def current_ai_guardrail_filter_def split: sum.splits)
qed

lemma fstdpsh_veto_console:
  "fstdpsh_veto eng O_raw out =
     (out @ fst (fstdpsh_veto eng O_raw []), snd (fstdpsh_veto eng O_raw []))"
  by (simp add: fstdpsh_veto_def py_print_def split: sum.splits)

lemma guardrail_scan_returns:
  "list_all is_str bl \<Longrightarrow> \<exists>b. snd (guardrail_scan bl candidate out) = Inr b"
  by (auto simp: guardrail_scan_def py_any_strs)

section \<open>Claims\<close>

subsection \<open>C1: a violation yields exactly the fallback\<close>

text \<open>
  C1. For every raw output on which the safety predicate reports a violation
  (\<^verbatim>\<open>brahmavihara_filter\<close> returns \<^verbatim>\<open>False\<close>), the value returned by
  \<^verbatim>\<open>fstdpsh_sovereign_response_model\<close> is exactly \<^verbatim>\<open>SAFE_STATE\<close>: the veto step
  prints its one line and returns the fallback of the engine, whatever the raw output is;
  so does the function itself when the filter rejects \<^verbatim>\<open>DESTRUCTIVE_OUTPUT\<close>; and with
  the fallback definitions of the script the returned value is the constant
  \<open>SAFE_STATE\<close>.
\<close>

theorem veto_returns_SAFE_STATE:
  "(v3_brahmavihara_filter eng O_raw = Inr False \<longrightarrow>
      fstdpsh_veto eng O_raw out =
        (out @ [''[F_SOV VETO]: Brahmavihara violation detected. Vetoing output.''],
         Inr (v3_SAFE_STATE eng)))
   \<and> (v3_brahmavihara_filter eng DESTRUCTIVE_OUTPUT = Inr False \<longrightarrow>
      snd (fstdpsh_sovereign_response_model eng prompt out) = Inr (v3_SAFE_STATE eng))
   \<and> (\<not> brahmavihara_filter O_raw \<longrightarrow>
      snd (fstdpsh_veto fallback_engine O_raw out) = Inr SAFE_STATE)"
  by (simp add: fstdpsh_veto_def fstdpsh_sovereign_response_model_def fallback_engine_def
      py_print_def)

text \<open>
  Witness for C1: the fallback definitions and the raw output of the script,
  \<^verbatim>\<open>DESTRUCTIVE_OUTPUT\<close>, which the filter rejects.
\<close>

theorem veto_returns_SAFE_STATE_witness:
  "v3_brahmavihara_filter fallback_engine DESTRUCTIVE_OUTPUT = Inr False
   \<and> \<not> brahmavihara_filter DESTRUCTIVE_OUTPUT
   \<and> fstdpsh_veto fallback_engine DESTRUCTIVE_OUTPUT [] =
       ([''[F_SOV VETO]: Brahmavihara violation detected. Vetoing output.''],
        Inr [(''C'', PyFloat 0), (''E'', PyFloat 0), (''D'', PyFloat 0), (''A'', PyFloat 1)])
   \<and> snd (fstdpsh_sovereign_response_model fallback_engine ''Tell me'' []) =
       Inr [(''C'', PyFloat 0), (''E'', PyFloat 0), (''D'', PyFloat 0), (''A'', PyFloat 1)]"
proof -
  have violation: "v3_brahmavihara_filter fallback_engine DESTRUCTIVE_OUTPUT = Inr False"
    by (simp add: fallback_engine_def brahmavihara_filter_DESTRUCTIVE_OUTPUT)
  have state: "v3_SAFE_STATE fallback_engine =
      [(''C'', PyFloat 0), (''E'', PyFloat 0), (''D'', PyFloat 0), (''A'', PyFloat 1)]"
    by (simp add: fallback_engine_def SAFE_STATE_def)
  from veto_returns_SAFE_STATE [of fallback_engine DESTRUCTIVE_OUTPUT "[]" "''Tell me''"]
    violation state
  show ?thesis by (simp add: brahmavihara_filter_DESTRUCTIVE_OUTPUT)
qed

subsection \<open>C2: the veto model returns the fallback for every prompt\<close>

text \<open>
  C2. With the fallback definitions, \<^verbatim>\<open>fstdpsh_sovereign_response_model(prompt)\<close>
  prints the veto line and returns \<^verbatim>\<open>SAFE_STATE\<close> for every prompt: the raw output it
  evaluates is the constant \<^verbatim>\<open>DESTRUCTIVE_OUTPUT\<close>, which \<^verbatim>\<open>brahmavihara_filter\<close>
  rejects, and the dictionary of the counsel branch is never the result.
\<close>

theorem sovereign_model_always_SAFE_STATE:
  "fstdpsh_sovereign_response_model fallback_engine prompt out =
     (out @ [''[F_SOV VETO]: Brahmavihara violation detected. Vetoing output.''], Inr SAFE_STATE)
   \<and> brahmavihara_filter DESTRUCTIVE_OUTPUT = False
   \<and> snd (fstdpsh_sovereign_response_model fallback_engine prompt out) \<noteq>
       Inr [(''Counsel_Mode'', PyStr SERVICE_MODE), (''Output'', PyStr ''Reflective Paths...'')]"
  by (simp add: fstdpsh_sovereign_response_model_def fstdpsh_veto_def fallback_engine_def
      brahmavihara_filter_DESTRUCTIVE_OUTPUT py_print_def SAFE_STATE_def)

subsection \<open>C3: the pass branches\<close>

text \<open>
  C3 as stated says that the pass branch of \<^verbatim>\<open>fstdpsh_sovereign_response_model\<close>
  returns the candidate. It does not. The candidate of the function is always
  \<^verbatim>\<open>DESTRUCTIVE_OUTPUT\<close> (line 75), so the pass branch is reached only under a
  binding of \<^verbatim>\<open>brahmavihara_filter\<close> that passes it; under the filter
  \<^verbatim>\<open>"harm" not in output.lower()\<close> the function prints nothing and returns the counsel
  dictionary, and \<^verbatim>\<open>DESTRUCTIVE_OUTPUT\<close> is not among its values.
\<close>

theorem pass_branch_drops_candidate:
  "v3_brahmavihara_filter
      (fallback_engine\<lparr>v3_brahmavihara_filter :=
          (\<lambda>output. Inr (\<not> py_in ''harm'' (lower output)))\<rparr>)
      DESTRUCTIVE_OUTPUT = Inr True
   \<and> fstdpsh_sovereign_response_model
      (fallback_engine\<lparr>v3_brahmavihara_filter :=
          (\<lambda>output. Inr (\<not> py_in ''harm'' (lower output)))\<rparr>)
      DIGITAL_RUIN_PROMPT [] =
       ([], Inr [(''Counsel_Mode'', PyStr ''CounselOnly''),
                 (''Output'', PyStr ''Reflective Paths...'')])
   \<and> PyStr DESTRUCTIVE_OUTPUT \<notin> set (dict_values [(''Counsel_Mode'', PyStr ''CounselOnly''),
                 (''Output'', PyStr ''Reflective Paths...'')])"
proof -
  have differs: "DESTRUCTIVE_OUTPUT \<noteq> ''CounselOnly''" "DESTRUCTIVE_OUTPUT \<noteq> ''Reflective Paths...''"
    by (simp_all add: DESTRUCTIVE_OUTPUT_def)
  then show ?thesis
    by (simp add: fstdpsh_sovereign_response_model_def fstdpsh_veto_def
        harm_not_in_DESTRUCTIVE_OUTPUT fallback_engine_def SERVICE_MODE_def dict_values_def)
qed

text \<open>
  C3, amended. For every candidate that the blocklist filter passes, the conditional of
  \<^verbatim>\<open>current_ai_response_model\<close> returns the candidate itself. For every candidate that
  \<^verbatim>\<open>brahmavihara_filter\<close> passes, the conditional of
  \<^verbatim>\<open>fstdpsh_sovereign_response_model\<close> prints nothing and returns the fixed dictionary
  \<^verbatim>\<open>{"Counsel_Mode": SERVICE_MODE, "Output": "Reflective Paths..."}\<close>; so does the
  function itself whenever the filter passes \<^verbatim>\<open>DESTRUCTIVE_OUTPUT\<close>. The dictionary
  is not built from the candidate: any two candidates that pass give the same result.
\<close>

theorem pass_branch_results:
  "(snd (current_ai_guardrail_filter candidate out) = Inr True \<longrightarrow>
      snd (current_ai_respond candidate out) = Inr candidate)
   \<and> (v3_brahmavihara_filter eng candidate = Inr True \<longrightarrow>
      fstdpsh_veto eng candidate out =
        (out, Inr [(''Counsel_Mode'', v3_SERVICE_MODE eng),
                   (''Output'', PyStr ''Reflective Paths...'')]))
   \<and> (v3_brahmavihara_filter eng DESTRUCTIVE_OUTPUT = Inr True \<longrightarrow>
      fstdpsh_sovereign_response_model eng prompt out =
        (out, Inr [(''Counsel_Mode'', v3_SERVICE_MODE eng),
                   (''Output'', PyStr ''Reflective Paths...'')]))
   \<and> (v3_brahmavihara_filter eng candidate = Inr True
        \<and> v3_brahmavihara_filter eng candidate' = Inr True \<longrightarrow>
      fstdpsh_veto eng candidate out = fstdpsh_veto eng candidate' out)"
  by (simp add: current_ai_respond_def fstdpsh_veto_def fstdpsh_sovereign_response_model_def
      split: prod.splits)

text \<open>
  Witness for C3 as amended: \<^verbatim>\<open>"safe text"\<close> passes the blocklist filter, and both
  \<^verbatim>\<open>"safe text"\<close> and \<^verbatim>\<open>DESTRUCTIVE_OUTPUT\<close> pass the filter
  \<^verbatim>\<open>"harm" not in output.lower()\<close>.
\<close>

theorem pass_branch_results_witness:
  "snd (current_ai_guardrail_filter ''safe text'' []) = Inr True
   \<and> snd (current_ai_respond ''safe text'' []) = Inr ''safe text''
   \<and> v3_brahmavihara_filter
        (fallback_engine\<lparr>v3_brahmavihara_filter :=
            (\<lambda>output. Inr (\<not> py_in ''harm'' (lower output)))\<rparr>) ''safe text'' = Inr True
   \<and> v3_brahmavihara_filter
        (fallback_engine\<lparr>v3_brahmavihara_filter :=
            (\<lambda>output. Inr (\<not> py_in ''harm'' (lower output)))\<rparr>) DESTRUCTIVE_OUTPUT = Inr True
   \<and> fstdpsh_veto
        (fallback_engine\<lparr>v3_brahmavihara_filter :=
            (\<lambda>output. Inr (\<not> py_in ''harm'' (lower output)))\<rparr>) ''safe text'' [] =
       ([], Inr [(''Counsel_Mode'', PyStr ''CounselOnly''),
                 (''Output'', PyStr ''Reflective Paths...'')])
   \<and> fstdpsh_sovereign_response_model
        (fallback_engine\<lparr>v3_brahmavihara_filter :=
            (\<lambda>output. Inr (\<not> py_in ''harm'' (lower output)))\<rparr>) ''Tell me'' [] =
       ([], Inr [(''Counsel_Mode'', PyStr ''CounselOnly''),
                 (''Output'', PyStr ''Reflective Paths...'')])
   \<and> fstdpsh_veto
        (fallback_engine\<lparr>v3_brahmavihara_filter :=
            (\<lambda>output. Inr (\<not> py_in ''harm'' (lower output)))\<rparr>) ''safe text'' [] =
      fstdpsh_veto
        (fallback_engine\<lparr>v3_brahmavihara_filter :=
            (\<lambda>output. Inr (\<not> py_in ''harm'' (lower output)))\<rparr>) DESTRUCTIVE_OUTPUT []"
proof -
  let ?eng = "fallback_engine\<lparr>v3_brahmavihara_filter :=
            (\<lambda>output. Inr (\<not> py_in ''harm'' (lower output)))\<rparr>"
  have scan: "snd (current_ai_guardrail_filter ''safe text'' []) = Inr True"
    by (simp add: current_ai_guardrail_filter_safe_text)
  have harmless: "v3_brahmavihara_filter ?eng ''safe text'' = Inr True"
    by (simp add: harm_not_in_safe_text)
  have harmless': "v3_brahmavihara_filter ?eng DESTRUCTIVE_OUTPUT = Inr True"
    by (simp add: harm_not_in_DESTRUCTIVE_OUTPUT)
  have mode: "v3_SERVICE_MODE ?eng = PyStr ''CounselOnly''"
    by (simp add: fallback_engine_def SERVICE_MODE_def)
  from pass_branch_results [of "''safe text''" "[]" ?eng "''Tell me''" DESTRUCTIVE_OUTPUT]
    pass_branch_results [of DESTRUCTIVE_OUTPUT "[]" ?eng "''Tell me''" DESTRUCTIVE_OUTPUT]
    scan harmless harmless' mode
  show ?thesis by simp
qed

subsection \<open>C4: a predicate that raises\<close>

text \<open>
  C4 as stated says that a failure of the predicate resolves to the fallback and never
  reaches the caller. It does reach the caller: with a filter that raises,
  \<^verbatim>\<open>fstdpsh_sovereign_response_model\<close> raises the same exception and returns no
  \<^verbatim>\<open>SAFE_STATE\<close>; and a blocklist test that raises (a blocklist entry that is not a
  string) leaves the scan of the blocklist filter as \<^verbatim>\<open>TypeError\<close>.
\<close>

theorem raising_filter_not_absorbed:
  "fstdpsh_sovereign_response_model
      (fallback_engine\<lparr>v3_brahmavihara_filter :=
          (\<lambda>output. Inl (OtherError ''PredicateEvaluationFailure''))\<rparr>)
      DIGITAL_RUIN_PROMPT [] =
     ([], Inl (OtherError ''PredicateEvaluationFailure''))
   \<and> snd (fstdpsh_sovereign_response_model
      (fallback_engine\<lparr>v3_brahmavihara_filter :=
          (\<lambda>output. Inl (OtherError ''PredicateEvaluationFailure''))\<rparr>)
      DIGITAL_RUIN_PROMPT []) \<noteq> Inr SAFE_STATE
   \<and> guardrail_scan [PyFloat 0] ''safe text'' [] = ([], Inl TypeError)"
  by (simp add: fstdpsh_sovereign_response_model_def fstdpsh_veto_def guardrail_scan_def)

text \<open>
  C4, amended. A failure of the predicate is not absorbed. When the filter raises on the
  raw output, the veto step, and so \<^verbatim>\<open>fstdpsh_sovereign_response_model\<close>, raises the
  same exception, prints nothing and returns no value; when a blocklist test raises before
  any entry has matched, the scan of \<^verbatim>\<open>current_ai_guardrail_filter\<close> raises it
  likewise.
\<close>

theorem predicate_failure_propagates:
  "(v3_brahmavihara_filter eng O_raw = Inl e \<longrightarrow> fstdpsh_veto eng O_raw out = (out, Inl e))
   \<and> (v3_brahmavihara_filter eng DESTRUCTIVE_OUTPUT = Inl e \<longrightarrow>
        fstdpsh_sovereign_response_model eng prompt out = (out, Inl e))
   \<and> (list_all (\<lambda>w. py_in_str w (lower candidate) = Inr False) pre
        \<and> py_in_str word (lower candidate) = Inl e \<longrightarrow>
        guardrail_scan (pre @ word # rest) candidate out = (out, Inl e))"
  by (simp add: fstdpsh_veto_def fstdpsh_sovereign_response_model_def guardrail_scan_def
      py_any_skip)

text \<open>
  Witness for C4 as amended: an engine whose filter raises, and a blocklist whose second
  entry is a float.
\<close>

theorem predicate_failure_propagates_witness:
  "v3_brahmavihara_filter
      (fallback_engine\<lparr>v3_brahmavihara_filter := (\<lambda>output. Inl (OtherError ''boom''))\<rparr>)
      DESTRUCTIVE_OUTPUT = Inl (OtherError ''boom'')
   \<and> fstdpsh_sovereign_response_model
      (fallback_engine\<lparr>v3_brahmavihara_filter := (\<lambda>output. Inl (OtherError ''boom''))\<rparr>)
      ''Tell me'' [] = ([], Inl (OtherError ''boom''))
   \<and> list_all (\<lambda>w. py_in_str w (lower ''safe text'') = Inr False) [PyStr ''must do'']
   \<and> py_in_str (PyFloat 1) (lower ''safe text'') = Inl TypeError
   \<and> guardrail_scan ([PyStr ''must do''] @ PyFloat 1 # [PyStr ''safe'']) ''safe text'' [] =
       ([], Inl TypeError)"
proof -
  have miss: "list_all (\<lambda>w. py_in_str w (lower ''safe text'') = Inr False) [PyStr ''must do'']"
    by code_simp
  from predicate_failure_propagates
    [of "fallback_engine\<lparr>v3_brahmavihara_filter := (\<lambda>output. Inl (OtherError ''boom''))\<rparr>"
        DESTRUCTIVE_OUTPUT "OtherError ''boom''" "[]" "''Tell me''"]
    predicate_failure_propagates
    [where e = TypeError and candidate = "''safe text''" and pre = "[PyStr ''must do'']"
       and word = "PyFloat 1" and rest = "[PyStr ''safe'']" and out = "[]"]
    miss
  show ?thesis by simp
qed

subsection \<open>C5: the blocklist model refuses for every prompt\<close>

text \<open>
  C5. For every prompt, \<^verbatim>\<open>current_ai_response_model(prompt)\<close> returns the fixed
  refusal and never \<^verbatim>\<open>DESTRUCTIVE_OUTPUT\<close>: the lowered raw output contains the
  blocklist entries \<^verbatim>\<open>"disappear"\<close>, \<^verbatim>\<open>"sell your house"\<close> and
  \<^verbatim>\<open>"quit your job"\<close>. Test 1 of the driver therefore prints its heading, the warning
  of the filter and the two lines of the deflection branch, never those of the failure
  branch.
\<close>

theorem current_ai_always_refuses:
  "snd (current_ai_response_model prompt out) =
     Inr ''I am sorry, I cannot provide advice that may lead to harm. Please seek professional help.''
   \<and> snd (current_ai_response_model prompt out) \<noteq> Inr DESTRUCTIVE_OUTPUT
   \<and> py_in_str (PyStr ''disappear'') (lower DESTRUCTIVE_OUTPUT) = Inr True
   \<and> py_in_str (PyStr ''sell your house'') (lower DESTRUCTIVE_OUTPUT) = Inr True
   \<and> py_in_str (PyStr ''quit your job'') (lower DESTRUCTIVE_OUTPUT) = Inr True
   \<and> main_test1 out =
       (out @ [''TEST 1: Current AI (Statistical Guardrails)'',
               ''[P_BRIT WARNING]: Triggered policy block for offensive language.'',
               ''[DEFLECTION]: P_BRIT DEFLECTED. Output: '' @ [CHR 0x27]
                 @ ''I am sorry, I cannot provide advice that may lead to harm. Please seek professional help.''
                 @ [CHR 0x27],
               ''Conclusion: Safety relies on the policy writer'' @ [CHR 0x27]
                 @ ''s skill, not the foundation'' @ [CHR 0x27] @ ''s integrity.''],
        Inr ())"
proof -
  have refusal: "current_ai_response_model p c =
      (c @ [''[P_BRIT WARNING]: Triggered policy block for offensive language.''],
       Inr ''I am sorry, I cannot provide advice that may lead to harm. Please seek professional help.'')"
    for p c
    by (simp add: current_ai_response_model_def current_ai_respond_def
        current_ai_guardrail_filter_DESTRUCTIVE_OUTPUT)
  have differs: "''I am sorry, I cannot provide advice that may lead to harm. Please seek professional help.''
      \<noteq> DESTRUCTIVE_OUTPUT"
    by (simp add: DESTRUCTIVE_OUTPUT_def)
  have hits: "py_in ''disappear'' (lower DESTRUCTIVE_OUTPUT)"
    "py_in ''sell your house'' (lower DESTRUCTIVE_OUTPUT)"
    "py_in ''quit your job'' (lower DESTRUCTIVE_OUTPUT)"
    by code_simp+
  have driver: "main_test1 out =
       (out @ [''TEST 1: Current AI (Statistical Guardrails)'',
               ''[P_BRIT WARNING]: Triggered policy block for offensive language.'',
               ''[DEFLECTION]: P_BRIT DEFLECTED. Output: '' @ [CHR 0x27]
                 @ ''I am sorry, I cannot provide advice that may lead to harm. Please seek professional help.''
                 @ [CHR 0x27],
               ''Conclusion: Safety relies on the policy writer'' @ [CHR 0x27]
                 @ ''s skill, not the foundation'' @ [CHR 0x27] @ ''s integrity.''],
        Inr ())"
    unfolding main_test1_def refusal using differs by (simp add: py_print_def)
  from refusal differs hits driver show ?thesis by simp
qed

subsection \<open>C6: determinism\<close>

text \<open>
  C6. The only state the functions touch is the console, and they only append to it. The
  value returned by \<^verbatim>\<open>current_ai_guardrail_filter\<close>,
  \<^verbatim>\<open>current_ai_response_model\<close> and \<^verbatim>\<open>fstdpsh_sovereign_response_model\<close> is the
  same on every console, so two calls with identical arguments, wherever they are made,
  return equal values and print equal lines; \<^verbatim>\<open>brahmavihara_filter\<close> is a function of
  its argument alone.
\<close>

theorem evaluation_deterministic:
  "snd (current_ai_guardrail_filter candidate out1) = snd (current_ai_guardrail_filter candidate out2)
   \<and> fst (current_ai_guardrail_filter candidate out1) =
       out1 @ fst (current_ai_guardrail_filter candidate [])
   \<and> snd (current_ai_response_model prompt out1) = snd (current_ai_response_model prompt out2)
   \<and> fst (current_ai_response_model prompt out1) = out1 @ fst (current_ai_response_model prompt [])
   \<and> snd (fstdpsh_sovereign_response_model eng prompt out1) =
       snd (fstdpsh_sovereign_response_model eng prompt out2)
   \<and> fst (fstdpsh_sovereign_response_model eng prompt out1) =
       out1 @ fst (fstdpsh_sovereign_response_model eng prompt [])
   \<and> v3_brahmavihara_filter fallback_engine candidate = Inr (brahmavihara_filter candidate)"
proof -
  have scan: "current_ai_guardrail_filter candidate c =
      (c @ fst (current_ai_guardrail_filter candidate []), snd (current_ai_guardrail_filter candidate []))"
    for c
    unfolding current_ai_guardrail_filter_def by (rule guardrail_scan_console)
  have brit: "current_ai_response_model prompt c =
      (c @ fst (current_ai_response_model prompt []), snd (current_ai_response_model prompt []))"
    for c
    unfolding current_ai_response_model_def by (rule current_ai_respond_console)
  have sov: "fstdpsh_sovereign_response_model eng prompt c =
      (c @ fst (fstdpsh_sovereign_response_model eng prompt []),
       snd (fstdpsh_sovereign_response_model eng prompt []))"
    for c
    unfolding fstdpsh_sovereign_response_model_def by (rule fstdpsh_veto_console)
  have "snd (current_ai_guardrail_filter candidate out1) = snd (current_ai_guardrail_filter candidate out2)"
    by (subst scan [of out1], subst scan [of out2]) simp
  moreover have "fst (current_ai_guardrail_filter candidate out1) =
       out1 @ fst (current_ai_guardrail_filter candidate [])"
    by (subst scan [of out1]) simp
  moreover have "snd (current_ai_response_model prompt out1) = snd (current_ai_response_model prompt out2)"
    by (subst brit [of out1], subst brit [of out2]) simp
  moreover have "fst (current_ai_response_model prompt out1) = out1 @ fst (current_ai_response_model prompt [])"
    by (subst brit [of out1]) simp
  moreover have "snd (fstdpsh_sovereign_response_model eng prompt out1) =
       snd (fstdpsh_sovereign_response_model eng prompt out2)"
    by (subst sov [of out1], subst sov [of out2]) simp
  moreover have "fst (fstdpsh_sovereign_response_model eng prompt out1) =
       out1 @ fst (fstdpsh_sovereign_response_model eng prompt [])"
    by (subst sov [of out1]) simp
  moreover have "v3_brahmavihara_filter fallback_engine candidate = Inr (brahmavihara_filter candidate)"
    by (simp add: fallback_engine_def)
  ultimately show ?thesis by blast
qed

subsection \<open>C7: the prompt is ignored\<close>

text \<open>
  C7. For every two prompts, both models return the same value and print the same lines:
  neither reads its argument.
\<close>

theorem prompt_noninterference:
  "current_ai_response_model p1 out = current_ai_response_model p2 out
   \<and> fstdpsh_sovereign_response_model eng p1 out = fstdpsh_sovereign_response_model eng p2 out"
  by (simp add: current_ai_response_model_def fstdpsh_sovereign_response_model_def)

subsection \<open>C8: the scan stops at the first match\<close>

text \<open>
  C8. Once a blocklist entry matches the lowered candidate (the entries before it having
  not matched), the scan prints the warning and returns \<^verbatim>\<open>False\<close>, whatever follows
  the matching entry: the later entries are not examined, not even one whose test would
  raise, and the result is that of the blocklist cut after the match.
\<close>

theorem blocklist_scan_short_circuit:
  assumes "list_all (\<lambda>w. py_in_str w (lower candidate) = Inr False) pre"
    and "py_in_str word (lower candidate) = Inr True"
  shows "guardrail_scan (pre @ word # rest) candidate out =
           (out @ [''[P_BRIT WARNING]: Triggered policy block for offensive language.''], Inr False)
         \<and> guardrail_scan (pre @ word # rest) candidate out =
             guardrail_scan (pre @ [word]) candidate out"
  using assms by (simp add: guardrail_scan_def py_any_skip py_print_def)

text \<open>
  Witness for C8: on \<^verbatim>\<open>DESTRUCTIVE_OUTPUT\<close>, \<^verbatim>\<open>"must do"\<close> does not match,
  \<^verbatim>\<open>"quit your job"\<close> does, and the float after it, whose test would raise
  \<^verbatim>\<open>TypeError\<close>, is never reached.
\<close>

theorem blocklist_scan_short_circuit_witness:
  "list_all (\<lambda>w. py_in_str w (lower DESTRUCTIVE_OUTPUT) = Inr False) [PyStr ''must do'']
   \<and> py_in_str (PyStr ''quit your job'') (lower DESTRUCTIVE_OUTPUT) = Inr True
   \<and> guardrail_scan ([PyStr ''must do''] @ PyStr ''quit your job'' # [PyFloat 0, PyStr ''disappear''])
        DESTRUCTIVE_OUTPUT [] =
       ([''[P_BRIT WARNING]: Triggered policy block for offensive language.''], Inr False)"
proof -
  have miss: "list_all (\<lambda>w. py_in_str w (lower DESTRUCTIVE_OUTPUT) = Inr False) [PyStr ''must do'']"
    by code_simp
  have hit: "py_in_str (PyStr ''quit your job'') (lower DESTRUCTIVE_OUTPUT) = Inr True"
    by code_simp
  from blocklist_scan_short_circuit [OF miss hit, of "[PyFloat 0, PyStr ''disappear'']" "[]"] miss hit
  show ?thesis by simp
qed

subsection \<open>C9: the order of the blocklist does not matter\<close>

text \<open>
  C9. For every candidate and every permutation of a blocklist of strings (as
  \<^verbatim>\<open>POLICY_BLOCKLIST\<close> is), the scan prints the same lines and returns the same
  value.
\<close>

theorem blocklist_order_invariant:
  assumes "mset bl' = mset bl" and "list_all is_str bl"
  shows "guardrail_scan bl' candidate out = guardrail_scan bl candidate out"
proof -
  from assms have strs: "list_all is_str bl'" by (rule is_str_mset)
  from assms(1) have "set bl' = set bl" by (rule mset_eq_setD)
  then have "py_any (\<lambda>word. py_in_str word (lower candidate)) bl' =
      py_any (\<lambda>word. py_in_str word (lower candidate)) bl"
    by (simp add: py_any_strs [OF strs] py_any_strs [OF assms(2)])
  then show ?thesis by (simp add: guardrail_scan_def)
qed

text \<open>
  Witness for C9: \<^verbatim>\<open>POLICY_BLOCKLIST\<close> reversed, on \<^verbatim>\<open>DESTRUCTIVE_OUTPUT\<close>.
\<close>

theorem blocklist_order_invariant_witness:
  "mset [PyStr ''must do'', PyStr ''total destruction'', PyStr ''quit your job'',
         PyStr ''sell your house'', PyStr ''disappear''] = mset POLICY_BLOCKLIST
   \<and> list_all is_str POLICY_BLOCKLIST
   \<and> guardrail_scan [PyStr ''must do'', PyStr ''total destruction'', PyStr ''quit your job'',
         PyStr ''sell your house'', PyStr ''disappear''] DESTRUCTIVE_OUTPUT [] =
       current_ai_guardrail_filter DESTRUCTIVE_OUTPUT []"
proof -
  have perm: "mset [PyStr ''must do'', PyStr ''total destruction'', PyStr ''quit your job'',
         PyStr ''sell your house'', PyStr ''disappear''] = mset POLICY_BLOCKLIST"
    by (simp add: POLICY_BLOCKLIST_def)
  from blocklist_order_invariant [OF perm is_str_POLICY_BLOCKLIST, of DESTRUCTIVE_OUTPUT "[]"]
    perm is_str_POLICY_BLOCKLIST
  show ?thesis by (simp add: current_ai_guardrail_filter_def)
qed

subsection \<open>C10: every call returns\<close>

text \<open>
  C10. Every function of the model is total (the recursions of the substring test and of
  \<open>py_any\<close> are structural, on the text and on the blocklist), and with the definitions
  of the script no call raises: for every input, \<^verbatim>\<open>current_ai_guardrail_filter\<close>,
  \<^verbatim>\<open>brahmavihara_filter\<close>, \<^verbatim>\<open>current_ai_response_model\<close> and
  \<^verbatim>\<open>fstdpsh_sovereign_response_model\<close> return a value, and so do the two
  conditionals on every raw output.
\<close>

theorem evaluation_returns:
  "(\<exists>b. snd (current_ai_guardrail_filter candidate out) = Inr b)
   \<and> (\<exists>b. v3_brahmavihara_filter fallback_engine candidate = Inr b)
   \<and> (\<exists>s. snd (current_ai_response_model prompt out) = Inr s)
   \<and> (\<exists>d. snd (fstdpsh_sovereign_response_model fallback_engine prompt out) = Inr d)
   \<and> (\<exists>s. snd (current_ai_respond candidate out) = Inr s)
   \<and> (\<exists>d. snd (fstdpsh_veto fallback_engine candidate out) = Inr d)"
proof -
  have scan: "\<exists>b. snd (current_ai_guardrail_filter candidate out) = Inr b"
    unfolding current_ai_guardrail_filter_def
    by (rule guardrail_scan_returns [OF is_str_POLICY_BLOCKLIST])
  have respond: "\<exists>s. snd (current_ai_respond c out) = Inr s" for c
  proof -
    from guardrail_scan_returns [OF is_str_POLICY_BLOCKLIST, of c out]
    obtain b where "snd (guardrail_scan POLICY_BLOCKLIST c out) = Inr b" ..
    then show ?thesis
      by (cases "guardrail_scan POLICY_BLOCKLIST c out")
         (simp add: current_ai_respond_def current_ai_guardrail_filter_def)
  qed
  have veto: "\<exists>d. snd (fstdpsh_veto fallback_engine c out) = Inr d" for c
    by (simp add: fstdpsh_veto_def fallback_engine_def)
  have filter: "\<exists>b. v3_brahmavihara_filter fallback_engine candidate = Inr b"
    by (simp add: fallback_engine_def)
  from scan filter respond [of DESTRUCTIVE_OUTPUT] respond [of candidate]
    veto [of DESTRUCTIVE_OUTPUT] veto [of candidate]
  show ?thesis
    by (simp add: current_ai_response_model_def fstdpsh_sovereign_response_model_def)
qed

end
